theory Spec2Isabelle
  imports Main "HOL-Library.AList"
begin

section \<open>Python values and dictionaries\<close>

text \<open>
  The script \<^verbatim>\<open>differ.py\<close> works on the dictionaries that \<^verbatim>\<open>to_dict()\<close> returns for a
  manifest node; their values are JSON values (dictionaries, lists, strings, numbers,
  booleans and \<^verbatim>\<open>None\<close>). A field value is Python's \<^verbatim>\<open>None\<close>, the float NaN, or some
  other value. NaN is the one JSON value that Python's \<^verbatim>\<open>!=\<close> tells apart from itself.
  On all other values \<^verbatim>\<open>==\<close> is reflexive, and \<^verbatim>\<open>!=\<close> is its negation: the type
  parameter \<open>'v\<close> stands for these values, taken up to \<^verbatim>\<open>==\<close> (deep structural equality),
  so that \<^verbatim>\<open>==\<close> on them is HOL's equality on \<open>'v\<close>.

  A Python dictionary keeps its keys in insertion order and holds each key once. It is
  modelled as an association list: \<open>map_of\<close> is the lookup, \<open>AList.update\<close> is the
  assignment \<^verbatim>\<open>d[k] = v\<close> (it replaces the value of a key in place and puts a new key
  last).
\<close>

datatype 'v pyval = PyNone | PyNaN | PyVal 'v

text \<open>
  \<^verbatim>\<open>a != b\<close> on two field values: a float NaN is unequal to every value, itself
  included.
\<close>

fun py_ne :: "'v pyval \<Rightarrow> 'v pyval \<Rightarrow> bool" where
  "py_ne PyNaN b = True"
| "py_ne a PyNaN = True"
| "py_ne a b = (a \<noteq> b)"

type_synonym ('k, 'a) dict = "('k \<times> 'a) list"

definition keys :: "('k, 'a) dict \<Rightarrow> 'k list" where
  "keys d = map fst d"

text \<open>\<^verbatim>\<open>d.get(k, None)\<close>: the value of the key, \<^verbatim>\<open>None\<close> when the key is absent.\<close>

definition dict_get :: "('k, 'v pyval) dict \<Rightarrow> 'k \<Rightarrow> 'v pyval" where
  "dict_get d k = (case map_of d k of None \<Rightarrow> PyNone | Some v \<Rightarrow> v)"

section \<open>The per-node diff mapping (lines 115 to 129)\<close>

text \<open>
  \<^verbatim>\<open>all_keys = set(left_dict.keys()) | set(right_dict.keys())\<close>. A Python set is
  iterated in an order the language does not fix; the model iterates the keys of the
  left record and then the new keys of the right one.
\<close>

definition all_keys :: "(string, 'a) dict \<Rightarrow> (string, 'a) dict \<Rightarrow> string list" where
  "all_keys left_dict right_dict = remdups (keys left_dict @ keys right_dict)"

text \<open>
  The second conjunct of the comprehension's filter,
  \<^verbatim>\<open>k not in right_dict or k not in left_dict or left_dict[k] != right_dict[k]\<close>:
  \<^verbatim>\<open>or\<close> evaluates from the left, so the two subscripts are read only when both keys
  are present.
\<close>

definition differs_at ::
  "(string, 'v pyval) dict \<Rightarrow> (string, 'v pyval) dict \<Rightarrow> string \<Rightarrow> bool" where
  "differs_at left_dict right_dict k =
     (case map_of right_dict k of
        None \<Rightarrow> True
      | Some rv \<Rightarrow>
          (case map_of left_dict k of
             None \<Rightarrow> True
           | Some lv \<Rightarrow> py_ne lv rv))"

text \<open>
  The dictionary comprehension. \<open>jsondiff\<close> stands for the library call
  \<^verbatim>\<open>jsondiff.diff(a, b, syntax='symmetric', marshal=True)\<close>, whose result type is \<open>'d\<close>.
\<close>

definition diffs ::
  "('v pyval \<Rightarrow> 'v pyval \<Rightarrow> 'd) \<Rightarrow> string list \<Rightarrow>
   (string, 'v pyval) dict \<Rightarrow> (string, 'v pyval) dict \<Rightarrow> (string, 'd) dict" where
  "diffs jsondiff properties_to_ignore left_dict right_dict =
     map (\<lambda>k. (k, jsondiff (dict_get left_dict k) (dict_get right_dict k)))
       (filter (\<lambda>k. k \<notin> set properties_to_ignore \<and> differs_at left_dict right_dict k)
          (all_keys left_dict right_dict))"

section \<open>The widgets and the classification categories (lines 33 to 45)\<close>

definition state_options :: "string list" where
  "state_options =
     [''modified'', ''new'', ''modified.body'', ''modified.configs'',
      ''modified.persisted_descriptions'', ''modified.relation'', ''modified.macros'',
      ''modified.contract'']"

text \<open>The options of the \<^verbatim>\<open>multiselect\<close> of line 45 and its \<^verbatim>\<open>default\<close> argument.\<close>

definition ignorable_properties :: "string list" where
  "ignorable_properties =
     [''created_at'', ''root_path'', ''build_path'', ''compiled_path'', ''deferred'',
      ''schema'', ''checksum'', ''compiled_code'', ''database'', ''relation_name'']"

definition default_properties_to_ignore :: "string list" where
  "default_properties_to_ignore =
     [''created_at'', ''checksum'', ''database'', ''schema'', ''relation_name'',
      ''compiled_path'', ''root_path'', ''build_path'']"

section \<open>The classification loop (lines 87 to 96)\<close>

text \<open>
  The body of the inner loop: append the category to the node's entry of
  \<^verbatim>\<open>state_inclusion_reasons_by_node\<close>, or create the entry.
\<close>

definition record_reason ::
  "string \<Rightarrow> (string, string list) dict \<Rightarrow> string \<Rightarrow> (string, string list) dict" where
  "record_reason state_option reasons node =
     (case map_of reasons node of
        Some rs \<Rightarrow> AList.update node (rs @ [state_option]) reasons
      | None \<Rightarrow> AList.update node [state_option] reasons)"

text \<open>
  One iteration of the outer loop. \<open>search\<close> is
  \<^verbatim>\<open>\<lambda>state_option. list(state_comparator.search(included_nodes, state_option))\<close>;
  the state is the pair of \<^verbatim>\<open>state_inclusion_counts\<close> and
  \<^verbatim>\<open>state_inclusion_reasons_by_node\<close>.
\<close>

definition classify_step ::
  "(string \<Rightarrow> string list) \<Rightarrow> (string, nat) dict \<times> (string, string list) dict \<Rightarrow> string \<Rightarrow>
   (string, nat) dict \<times> (string, string list) dict" where
  "classify_step search st state_option =
     (let results = search state_option;
          reasons = foldl (record_reason state_option) (snd st) results
      in (AList.update state_option (length results) (fst st), reasons))"

definition classify_from ::
  "(string \<Rightarrow> string list) \<Rightarrow> (string, nat) dict \<times> (string, string list) dict \<Rightarrow> string list \<Rightarrow>
   (string, nat) dict \<times> (string, string list) dict" where
  "classify_from search st options = foldl (classify_step search) st options"

definition classify ::
  "(string \<Rightarrow> string list) \<Rightarrow> (string, nat) dict \<times> (string, string list) dict" where
  "classify search = classify_from search ([], []) state_options"

text \<open>
  Measures of the two dictionaries: the sum of the recorded counts, the sum of the lengths
  of the reason lists, how often a category stands in the reason lists, and how many
  nodes have the category among their reasons.
\<close>

definition sum_counts :: "(string, nat) dict \<Rightarrow> nat" where
  "sum_counts counts = sum_list (map snd counts)"

definition sum_reasons :: "(string, string list) dict \<Rightarrow> nat" where
  "sum_reasons reasons = sum_list (map (\<lambda>e. length (snd e)) reasons)"

definition appended :: "string \<Rightarrow> (string, string list) dict \<Rightarrow> nat" where
  "appended c reasons = sum_list (map (\<lambda>e. count_list (snd e) c) reasons)"

definition nodes_with :: "string \<Rightarrow> (string, string list) dict \<Rightarrow> nat" where
  "nodes_with c reasons = length (filter (\<lambda>e. c \<in> set (snd e)) reasons)"

section \<open>Manifests and the state comparator\<close>

text \<open>
  Of a manifest node the script reads \<^verbatim>\<open>to_dict()\<close> and \<^verbatim>\<open>depends_on.macros\<close>; of a
  manifest it reads \<^verbatim>\<open>nodes\<close>, a dictionary from unique ids to nodes.
\<close>

record 'v node =
  to_dict :: "(string, 'v pyval) dict"
  depends_on_macros :: "string list"

record 'v manifest =
  nodes :: "(string, 'v node) dict"

text \<open>
  Modelled from the spec: \<^verbatim>\<open>StateSelectorMethod.search\<close> belongs to the \<^verbatim>\<open>dbt\<close> library
  and is not part of the script. For a category it evaluates the category's predicate over
  the candidate ids of the branch manifest and yields the ids that satisfy it; the
  predicate of \<^verbatim>\<open>new\<close> is that the id is absent from the reference manifest. The predicates
  of the other categories are the parameter \<open>checker\<close>, which sees the category, the
  reference node (if any) and the branch node.
\<close>

definition search ::
  "(string \<Rightarrow> 'v node option \<Rightarrow> 'v node \<Rightarrow> bool) \<Rightarrow> 'v manifest \<Rightarrow> 'v manifest \<Rightarrow>
   string set \<Rightarrow> string \<Rightarrow> string list" where
  "search checker manifest previous included_nodes selector =
     map fst
       (filter
          (\<lambda>e. fst e \<in> included_nodes \<and>
                (if selector = ''new'' then map_of (nodes previous) (fst e) = None
                 else checker selector (map_of (nodes previous) (fst e)) (snd e)))
          (nodes manifest))"

section \<open>What the script shows\<close>

text \<open>
  An exception ends the script. \<open>NameError\<close> and \<open>KeyError\<close> are raised by the script's
  own reads of a variable and of a dictionary; \<open>Raised\<close> is an exception that one of the
  libraries raises.
\<close>

datatype exn = NameError string | KeyError string | Raised string

text \<open>
  The pieces of a formatted message: literal text, a number, and the \<^verbatim>\<open>repr\<close> of a set,
  of a list and of an exception that an f-string puts in.
\<close>

datatype piece =
    Lit string
  | Num nat
  | ReprSet "string set"
  | ReprList "string list"
  | ReprExn exn

text \<open>
  The calls that show something, in the order the script makes them, and the opening of
  a manifest file. The page set-up, the title and the information box of lines 19 to 30
  are the same in every run and are left out, and so is \<^verbatim>\<open>st.columns\<close>, which only lays
  out the two JSON trees; the icon of a warning is not kept.
\<close>

datatype ('v, 'd, 'df) event =
    Open_file string
  | St_warning "piece list"
  | St_error "piece list"
  | St_bar_chart "(string, nat) dict"
  | St_header "piece list"
  | St_subheader string
  | St_write "piece list"
  | St_code "string list"
  | St_json_diffs "(string, 'd) dict"
  | St_json_right "(string, 'v pyval) dict"
  | St_dataframe 'df
  | St_divider

text \<open>
  Everything outside the script: the environment variable, the file system, the
  libraries and the two widgets' values.
\<close>

record ('doc, 'v, 'd, 'rows, 'df) world =
  getenv_dbt_home :: "string option"
  path_exists :: "string \<Rightarrow> bool"
  json_load :: "string \<Rightarrow> exn + 'doc"
  remove_large_seeds :: "'doc \<Rightarrow> 'doc \<times> string set"
  upgrade_schema_version :: "'doc \<Rightarrow> exn + 'v manifest"
  checker :: "string \<Rightarrow> 'v node option \<Rightarrow> 'v node \<Rightarrow> bool"
  modified_macros :: "string list"
  jsondiff :: "'v pyval \<Rightarrow> 'v pyval \<Rightarrow> 'd"
  flatten_keys :: "(string, 'd) dict \<Rightarrow> exn + 'rows"
  from_dict :: "'rows \<Rightarrow> exn + 'df"
  state_method :: string
  properties_to_ignore :: "string list"

section \<open>Loading a manifest (lines 46 to 53)\<close>

text \<open>
  The outcome of a piece of the script: what it has shown, and either the exception that
  ended it or its result.
\<close>

type_synonym ('v, 'd, 'df, 'a) outcome = "('v, 'd, 'df) event list \<times> (exn + 'a)"

text \<open>
  \<^verbatim>\<open>load_manifest\<close> reads the file, removes the large seeds, adds their ids to the global
  set \<^verbatim>\<open>skipped_large_seeds\<close> (passed in and returned here) and hands the pruned document
  to \<^verbatim>\<open>WritableManifest.upgrade_schema_version\<close>.
\<close>

definition load_manifest ::
  "('doc, 'v, 'd, 'rows, 'df) world \<Rightarrow> string set \<Rightarrow> string \<Rightarrow>
   ('v, 'd, 'df, 'v manifest \<times> string set) outcome" where
  "load_manifest w skipped file_name =
     (case json_load w file_name of
        Inl e \<Rightarrow> ([Open_file file_name], Inl e)
      | Inr loaded \<Rightarrow>
          (let (data, large_seeds) = remove_large_seeds w loaded;
               skipped' = skipped \<union> large_seeds
           in case upgrade_schema_version w data of
                Inl e \<Rightarrow> ([Open_file file_name], Inl e)
              | Inr m \<Rightarrow> ([Open_file file_name], Inr (m, skipped'))))"

section \<open>Finding the manifests (lines 55 to 76)\<close>

text \<open>
  \<^verbatim>\<open>os.path.join\<close> of a non-empty directory with a relative part: a separator is put in
  unless the directory already ends with one.
\<close>

definition path_join :: "string \<Rightarrow> string \<Rightarrow> string" where
  "path_join a b = (if a \<noteq> [] \<and> last a = CHR ''/'' then a @ b else a @ ''/'' @ b)"

text \<open>\<^verbatim>\<open>', '.join(xs)\<close>.\<close>

fun join_comma :: "string list \<Rightarrow> string" where
  "join_comma [] = []"
| "join_comma [x] = x"
| "join_comma (x # y # ys) = x @ '', '' @ join_comma (y # ys)"

definition production_manifest_location :: "string \<Rightarrow> string" where
  "production_manifest_location dbt_project_path =
     path_join (path_join dbt_project_path ''logs'') ''manifest.json''"

definition branch_manifest_location :: "string \<Rightarrow> string" where
  "branch_manifest_location dbt_project_path =
     path_join (path_join dbt_project_path ''target'') ''manifest.json''"

text \<open>
  The two \<^verbatim>\<open>append\<close>s of lines 68 to 71, to the empty list that line 62 assigned.
\<close>

definition missing_files ::
  "('doc, 'v, 'd, 'rows, 'df) world \<Rightarrow> string \<Rightarrow> string \<Rightarrow> string list" where
  "missing_files w prod_location branch_location =
     (let nf1 = (if \<not> path_exists w prod_location then [''Production manifest file''] else [])
      in if \<not> path_exists w branch_location then nf1 @ [''Branch manifest file''] else nf1)"

text \<open>
  The module's variables that the first part of the script may or may not have assigned
  when the second part reads them: \<open>None\<close> is a name that is not bound.
\<close>

record 'v globals =
  not_found_files :: "string list option"
  production_manifest :: "'v manifest option"
  branch_manifest :: "'v manifest option"
  skipped_large_seeds :: "string set"

definition find_manifests ::
  "('doc, 'v, 'd, 'rows, 'df) world \<Rightarrow> ('v, 'd, 'df, 'v globals) outcome" where
  "find_manifests w =
     (let g0 = \<lparr>not_found_files = None, production_manifest = None, branch_manifest = None,
                skipped_large_seeds = {}\<rparr>
      in case getenv_dbt_home w of
        None \<Rightarrow> ([St_warning [Lit ''DATACOVES__DBT_HOME environment variable not set.'']], Inr g0)
      | Some dbt_project_path \<Rightarrow>
          if dbt_project_path = [] then
            ([St_warning [Lit ''DATACOVES__DBT_HOME environment variable not set.'']], Inr g0)
          else
            (let prod_location = production_manifest_location dbt_project_path;
                 branch_location = branch_manifest_location dbt_project_path;
                 g1 = g0\<lparr>not_found_files := Some []\<rparr>
             in if path_exists w prod_location \<and> path_exists w branch_location
                then
                  (case load_manifest w (skipped_large_seeds g1) prod_location of
                     (ev1, Inl e) \<Rightarrow> (ev1, Inl e)
                   | (ev1, Inr (pm, skipped1)) \<Rightarrow>
                       (case load_manifest w skipped1 branch_location of
                          (ev2, Inl e) \<Rightarrow> (ev1 @ ev2, Inl e)
                        | (ev2, Inr (bm, skipped2)) \<Rightarrow>
                            (ev1 @ ev2,
                             Inr (g1\<lparr>production_manifest := Some pm, branch_manifest := Some bm,
                                     skipped_large_seeds := skipped2\<rparr>))))
                else
                  (let nf = missing_files w prod_location branch_location;
                       error_message =
                         ''Manifest files not found: '' @ join_comma nf @
                         ''. Please make sure the paths are correct.''
                   in ([St_warning [Lit error_message]],
                       Inr (g1\<lparr>not_found_files := Some nf\<rparr>)))))"

section \<open>Showing the selected nodes (lines 106 to 162)\<close>

text \<open>
  The \<^verbatim>\<open>try\<close> block of lines 146 to 151: flatten the diff mapping, build the data frame,
  show it; any exception of the two calls is caught and shown as an error.
\<close>

definition flat_table ::
  "('doc, 'v, 'd, 'rows, 'df) world \<Rightarrow> (string, 'd) dict \<Rightarrow> ('v, 'd, 'df) event list" where
  "flat_table w ds =
     (case flatten_keys w ds of
        Inl e \<Rightarrow> [St_error [Lit ''Couldn't print as table: '', ReprExn e]]
      | Inr flattened_diff \<Rightarrow>
          (case from_dict w flattened_diff of
             Inl e \<Rightarrow> [St_error [Lit ''Couldn't print as table: '', ReprExn e]]
           | Inr df \<Rightarrow> [St_dataframe df]))"

text \<open>
  The body of the loop over the selected nodes. A node object is truthy, so
  \<^verbatim>\<open>left_node and right_node\<close> asks whether both lookups found a node. The subscript
  \<^verbatim>\<open>state_inclusion_reasons_by_node[unique_id]\<close> raises \<open>KeyError\<close> for a missing key.
\<close>

definition show_node ::
  "('doc, 'v, 'd, 'rows, 'df) world \<Rightarrow> 'v manifest \<Rightarrow> 'v manifest \<Rightarrow>
   (string, string list) dict \<Rightarrow> string \<Rightarrow> ('v, 'd, 'df, unit) outcome" where
  "show_node w bm pm reasons unique_id =
     (case map_of (nodes bm) unique_id of
        Some left_node \<Rightarrow>
          (case map_of (nodes pm) unique_id of
             Some right_node \<Rightarrow>
               (let left_dict = to_dict left_node;
                    right_dict = to_dict right_node;
                    ds = diffs (jsondiff w) (properties_to_ignore w) left_dict right_dict
                in case map_of reasons unique_id of
                     None \<Rightarrow>
                       ([St_subheader unique_id,
                         St_write [Lit ''##### State selectors that find this node:'']],
                        Inl (KeyError unique_id))
                   | Some rs \<Rightarrow>
                       ([St_subheader unique_id,
                         St_write [Lit ''##### State selectors that find this node:''],
                         St_code rs] @
                        (if depends_on_macros left_node \<noteq> [] \<and> modified_macros w \<noteq> []
                         then [St_write [Lit ''Depends on macros: '',
                                         ReprList (depends_on_macros left_node)]]
                         else []) @
                        [St_write [Lit ''##### JSON tree of diffs:''],
                         St_json_diffs ds,
                         St_write [Lit ''##### JSON tree of all elements in right node:''],
                         St_json_right right_dict,
                         St_write [Lit ''##### Flat table of diffs:'']] @
                        flat_table w ds @
                        [St_divider],
                        Inr ()))
           | None \<Rightarrow>
               (case map_of reasons unique_id of
                  None \<Rightarrow>
                    ([St_subheader unique_id,
                      St_warning [Lit ''Missing from production manifest (new node)''],
                      St_write [Lit ''State methods that pick this node up:'']],
                     Inl (KeyError unique_id))
                | Some rs \<Rightarrow>
                    ([St_subheader unique_id,
                      St_warning [Lit ''Missing from production manifest (new node)''],
                      St_write [Lit ''State methods that pick this node up:''],
                      St_code rs,
                      St_divider],
                     Inr ())))
      | None \<Rightarrow>
          ([St_subheader unique_id,
            St_warning [Lit ''Missing from branch manifest (deleted node)''],
            St_divider],
           Inr ()))"

fun show_nodes ::
  "('doc, 'v, 'd, 'rows, 'df) world \<Rightarrow> 'v manifest \<Rightarrow> 'v manifest \<Rightarrow>
   (string, string list) dict \<Rightarrow> string list \<Rightarrow> ('v, 'd, 'df, unit) outcome" where
  "show_nodes w bm pm reasons [] = ([], Inr ())"
| "show_nodes w bm pm reasons (unique_id # rest) =
     (case show_node w bm pm reasons unique_id of
        (ev, Inl e) \<Rightarrow> (ev, Inl e)
      | (ev, Inr u) \<Rightarrow>
          (case show_nodes w bm pm reasons rest of (ev', r) \<Rightarrow> (ev @ ev', r)))"

section \<open>The comparison (lines 78 to 165) and the whole script\<close>

text \<open>
  \<^verbatim>\<open>list(state_comparator.search(included_nodes, state_option))\<close> of the script, with
  \<^verbatim>\<open>included_nodes = set(branch_manifest.nodes.keys())\<close>.
\<close>

definition included_nodes :: "'v manifest \<Rightarrow> string set" where
  "included_nodes bm = set (keys (nodes bm))"

definition results_of ::
  "('doc, 'v, 'd, 'rows, 'df) world \<Rightarrow> 'v manifest \<Rightarrow> 'v manifest \<Rightarrow> string \<Rightarrow> string list" where
  "results_of w bm pm state_option = search (checker w) bm pm (included_nodes bm) state_option"

definition compare_manifests ::
  "('doc, 'v, 'd, 'rows, 'df) world \<Rightarrow> 'v manifest \<Rightarrow> 'v manifest \<Rightarrow> string set \<Rightarrow>
   ('v, 'd, 'df, unit) outcome" where
  "compare_manifests w bm pm skipped =
     (let (state_inclusion_counts, state_inclusion_reasons_by_node) = classify (results_of w bm pm);
          selected_nodes = results_of w bm pm (state_method w);
          ev =
            (if skipped \<noteq> {}
             then [St_warning
                     [Lit ''Some large seeds couldn't be compared from the manifest alone: '',
                      ReprSet skipped]]
             else []) @
            [St_bar_chart state_inclusion_counts] @
            (if modified_macros w \<noteq> []
             then [St_header [Lit ''Modified macros''], St_write [ReprList (modified_macros w)]]
             else []) @
            [St_header
               [Num (length selected_nodes), Lit '' Selected node'',
                Lit (if length selected_nodes \<noteq> 1 then ''s'' else [])]]
      in case show_nodes w bm pm state_inclusion_reasons_by_node selected_nodes of
           (ev', r) \<Rightarrow> (ev @ ev', r))"

text \<open>
  The guard of line 78 reads \<^verbatim>\<open>not_found_files\<close>, and the comparison reads the two
  manifests; reading a name that is not bound raises \<open>NameError\<close>.
\<close>

definition comparison ::
  "('doc, 'v, 'd, 'rows, 'df) world \<Rightarrow> 'v globals \<Rightarrow> ('v, 'd, 'df, unit) outcome" where
  "comparison w g =
     (case not_found_files g of
        None \<Rightarrow> ([], Inl (NameError ''not_found_files''))
      | Some nf \<Rightarrow>
          if nf = [] then
            (case branch_manifest g of
               None \<Rightarrow> ([], Inl (NameError ''branch_manifest''))
             | Some bm \<Rightarrow>
                 (case production_manifest g of
                    None \<Rightarrow> ([], Inl (NameError ''production_manifest''))
                  | Some pm \<Rightarrow> compare_manifests w bm pm (skipped_large_seeds g)))
          else
            ([St_warning [Lit ''Production and branch manifests needed to perform comparison'']],
             Inr ()))"

definition differ :: "('doc, 'v, 'd, 'rows, 'df) world \<Rightarrow> ('v, 'd, 'df, unit) outcome" where
  "differ w =
     (case find_manifests w of
        (ev, Inl e) \<Rightarrow> (ev, Inl e)
      | (ev, Inr g) \<Rightarrow> (case comparison w g of (ev', r) \<Rightarrow> (ev @ ev', r)))"

section \<open>Observations used in the statements\<close>

text \<open>The reasons recorded for a node: the empty list when the index has no entry for it.\<close>

definition reasons_of :: "(string, string list) dict \<Rightarrow> string \<Rightarrow> string list" where
  "reasons_of reasons n = (case map_of reasons n of None \<Rightarrow> [] | Some rs \<Rightarrow> rs)"

text \<open>The warning of line 85, and the events of a run that are such a warning.\<close>

definition large_seeds_warning :: "string set \<Rightarrow> ('v, 'd, 'df) event" where
  "large_seeds_warning skipped =
     St_warning
       [Lit ''Some large seeds couldn't be compared from the manifest alone: '', ReprSet skipped]"

fun is_large_seeds_warning :: "('v, 'd, 'df) event \<Rightarrow> bool" where
  "is_large_seeds_warning (St_warning [Lit t, ReprSet s]) = True"
| "is_large_seeds_warning e = False"

text \<open>The ids that the per-node display shows: one subheader for each.\<close>

fun displayed_ids :: "('v, 'd, 'df) event list \<Rightarrow> string list" where
  "displayed_ids [] = []"
| "displayed_ids (St_subheader unique_id # evs) = unique_id # displayed_ids evs"
| "displayed_ids (e # evs) = displayed_ids evs"

section \<open>A small project for the concrete runs\<close>

text \<open>
  The branch manifest holds \<^verbatim>\<open>model.a\<close>, whose body differs from the production one, and
  the new \<^verbatim>\<open>model.b\<close>; the production manifest holds \<^verbatim>\<open>model.a\<close> and \<^verbatim>\<open>model.c\<close>, which the
  branch has deleted. No macro has changed, so \<^verbatim>\<open>modified.macros\<close> matches no node; a node
  without a production counterpart matches every other category, and \<^verbatim>\<open>model.a\<close> matches
  \<^verbatim>\<open>modified\<close> and \<^verbatim>\<open>modified.body\<close>.
\<close>

definition demo_branch :: "string manifest" where
  "demo_branch =
     \<lparr>nodes =
        [(''model.a'',
          \<lparr>to_dict = [(''body'', PyVal ''select 2''), (''created_at'', PyVal ''2'')],
           depends_on_macros = []\<rparr>),
         (''model.b'',
          \<lparr>to_dict = [(''body'', PyVal ''select 3''), (''created_at'', PyVal ''2'')],
           depends_on_macros = []\<rparr>)]\<rparr>"

definition demo_production :: "string manifest" where
  "demo_production =
     \<lparr>nodes =
        [(''model.a'',
          \<lparr>to_dict = [(''body'', PyVal ''select 1''), (''created_at'', PyVal ''1'')],
           depends_on_macros = []\<rparr>),
         (''model.c'',
          \<lparr>to_dict = [(''body'', PyVal ''select 4''), (''created_at'', PyVal ''1'')],
           depends_on_macros = []\<rparr>)]\<rparr>"

definition demo_checker :: "string \<Rightarrow> string node option \<Rightarrow> string node \<Rightarrow> bool" where
  "demo_checker selector old new =
     (selector \<noteq> ''modified.macros'' \<and>
      (case old of
         None \<Rightarrow> True
       | Some previous \<Rightarrow>
           (selector = ''modified'' \<or> selector = ''modified.body'') \<and>
           map_of (to_dict previous) ''body'' \<noteq> map_of (to_dict new) ''body''))"

text \<open>
  A document is named by its file; the branch manifest has one large seed; flattening a
  diff mapping fails.
\<close>

definition demo_world ::
  "(string, string, string pyval \<times> string pyval, unit, unit) world" where
  "demo_world =
     \<lparr>getenv_dbt_home = Some ''/project'',
      path_exists = (\<lambda>f. True),
      json_load = (\<lambda>f. Inr f),
      remove_large_seeds =
        (\<lambda>doc. (doc, if doc = ''/project/target/manifest.json'' then {''seed.big''} else {})),
      upgrade_schema_version =
        (\<lambda>doc. if doc = ''/project/target/manifest.json'' then Inr demo_branch
                 else Inr demo_production),
      checker = demo_checker,
      modified_macros = [],
      jsondiff = Pair,
      flatten_keys = (\<lambda>ds. Inl (Raised ''ValueError'')),
      from_dict = (\<lambda>rows. Inr ()),
      state_method = ''modified'',
      properties_to_ignore = default_properties_to_ignore\<rparr>"

definition demo_search :: "string \<Rightarrow> string list" where
  "demo_search = results_of demo_world demo_branch demo_production"

section \<open>Properties of the diff mapping\<close>

lemma keys_diffs:
  "keys (diffs jd ign l r) =
     filter (\<lambda>k. k \<notin> set ign \<and> differs_at l r k) (all_keys l r)"
  by (simp add: diffs_def keys_def comp_def)

lemma distinct_keys_diffs: "distinct (keys (diffs jd ign l r))"
  by (simp add: keys_diffs all_keys_def)

lemma in_keys_iff: "k \<in> set (keys d) \<longleftrightarrow> map_of d k \<noteq> None"
  by (simp add: keys_def map_of_eq_None_iff)

lemma py_ne_iff: "py_ne a b \<longleftrightarrow> a = PyNaN \<or> b = PyNaN \<or> a \<noteq> b"
  by (cases a; cases b) simp_all

lemma differs_at_iff:
  "differs_at l r k \<longleftrightarrow>
     (k \<notin> set (keys r) \<or> k \<notin> set (keys l) \<or>
      (\<exists>lv rv. map_of l k = Some lv \<and> map_of r k = Some rv \<and> py_ne lv rv))"
  by (auto simp: differs_at_def in_keys_iff split: option.splits)

lemma map_of_diffs:
  "map_of (diffs jd ign l r) k =
     (if k \<in> set (all_keys l r) \<and> k \<notin> set ign \<and> differs_at l r k
      then Some (jd (dict_get l k) (dict_get r k)) else None)"
proof -
  let ?P = "\<lambda>k. k \<notin> set ign \<and> differs_at l r k"
  let ?f = "\<lambda>k. jd (dict_get l k) (dict_get r k)"
  have "map_of (map (\<lambda>k. (k, ?f k)) ks) k = (if k \<in> set ks then Some (?f k) else None)" for ks
    by (induction ks) auto
  from this [of "filter ?P (all_keys l r)"] show ?thesis
    by (simp add: diffs_def)
qed

section \<open>Properties of the classification loop\<close>

subsection \<open>One append to the reasons index\<close>

lemma record_reason_Nil: "record_reason c [] n = [(n, [c])]"
  by (simp add: record_reason_def)

lemma record_reason_Cons:
  "record_reason c (p # ps) n =
     (if fst p = n then (n, snd p @ [c]) # ps else p # record_reason c ps n)"
  by (cases p) (auto simp: record_reason_def split: option.splits)

lemma sum_reasons_record_reason:
  "sum_reasons (record_reason c reasons n) = Suc (sum_reasons reasons)"
  by (induction reasons) (auto simp: sum_reasons_def record_reason_Nil record_reason_Cons)

lemma appended_record_reason:
  "appended c' (record_reason c reasons n) = appended c' reasons + (if c = c' then 1 else 0)"
  by (induction reasons) (auto simp: appended_def record_reason_Nil record_reason_Cons)

lemma keys_record_reason:
  "set (keys (record_reason c reasons n)) = insert n (set (keys reasons))"
  by (induction reasons) (auto simp: keys_def record_reason_Nil record_reason_Cons)

lemma distinct_record_reason:
  "distinct (keys reasons) \<Longrightarrow> distinct (keys (record_reason c reasons n))"
  using keys_record_reason [of c _ n]
  by (induction reasons) (auto simp: keys_def record_reason_Nil record_reason_Cons)

lemma reasons_of_record_reason:
  "reasons_of (record_reason c reasons n) m =
     (if m = n then reasons_of reasons n @ [c] else reasons_of reasons m)"
  by (induction reasons) (auto simp: reasons_of_def record_reason_Nil record_reason_Cons)

subsection \<open>The inner loop over the results of one category\<close>

lemma sum_reasons_inner:
  "sum_reasons (foldl (record_reason c) reasons ns) = sum_reasons reasons + length ns"
  by (induction ns arbitrary: reasons) (simp_all add: sum_reasons_record_reason)

lemma appended_inner:
  "appended c' (foldl (record_reason c) reasons ns) =
     appended c' reasons + (if c = c' then length ns else 0)"
  by (induction ns arbitrary: reasons) (simp_all add: appended_record_reason)

lemma keys_inner:
  "set (keys (foldl (record_reason c) reasons ns)) = set (keys reasons) \<union> set ns"
  by (induction ns arbitrary: reasons) (simp_all add: keys_record_reason)

lemma distinct_inner:
  "distinct (keys reasons) \<Longrightarrow> distinct (keys (foldl (record_reason c) reasons ns))"
  by (induction ns arbitrary: reasons) (simp_all add: distinct_record_reason)

lemma reasons_of_inner:
  "reasons_of (foldl (record_reason c) reasons ns) m =
     reasons_of reasons m @ replicate (count_list ns m) c"
  by (induction ns arbitrary: reasons)
     (simp_all add: reasons_of_record_reason replicate_append_same)

subsection \<open>The outer loop over the categories\<close>

lemma classify_from_Nil: "classify_from srch st [] = st"
  by (simp add: classify_from_def)

lemma classify_from_Cons:
  "classify_from srch st (c # cs) = classify_from srch (classify_step srch st c) cs"
  by (simp add: classify_from_def)

lemma snd_classify_step:
  "snd (classify_step srch st c) = foldl (record_reason c) (snd st) (srch c)"
  by (simp add: classify_step_def Let_def)

lemma fst_classify_step:
  "fst (classify_step srch st c) = AList.update c (length (srch c)) (fst st)"
  by (simp add: classify_step_def Let_def)

lemma update_new_key: "k \<notin> set (keys al) \<Longrightarrow> AList.update k v al = al @ [(k, v)]"
  by (induction al) (auto simp: keys_def)

lemma counts_classify_from:
  "distinct cs \<Longrightarrow> set cs \<inter> set (keys (fst st)) = {} \<Longrightarrow>
   fst (classify_from srch st cs) = fst st @ map (\<lambda>c. (c, length (srch c))) cs"
proof (induction cs arbitrary: st)
  case Nil
  then show ?case by (simp add: classify_from_Nil)
next
  case (Cons c cs)
  have new: "c \<notin> set (keys (fst st))"
    using Cons.prems by auto
  have "set cs \<inter> set (keys (fst (classify_step srch st c))) = {}"
    using Cons.prems by (auto simp: fst_classify_step update_new_key [OF new] keys_def)
  with Cons show ?case
    by (simp add: classify_from_Cons fst_classify_step update_new_key [OF new])
qed

lemma sum_reasons_classify_from:
  "sum_reasons (snd (classify_from srch st cs)) =
     sum_reasons (snd st) + sum_list (map (\<lambda>c. length (srch c)) cs)"
  by (induction cs arbitrary: st)
     (simp_all add: classify_from_Nil classify_from_Cons snd_classify_step sum_reasons_inner)

lemma appended_classify_from:
  "appended c' (snd (classify_from srch st cs)) =
     appended c' (snd st) + count_list cs c' * length (srch c')"
  by (induction cs arbitrary: st)
     (simp_all add: classify_from_Nil classify_from_Cons snd_classify_step appended_inner)

lemma keys_classify_from:
  "set (keys (snd (classify_from srch st cs))) =
     set (keys (snd st)) \<union> (\<Union>c \<in> set cs. set (srch c))"
  by (induction cs arbitrary: st)
     (auto simp: classify_from_Nil classify_from_Cons snd_classify_step keys_inner)

lemma distinct_classify_from:
  "distinct (keys (snd st)) \<Longrightarrow> distinct (keys (snd (classify_from srch st cs)))"
  by (induction cs arbitrary: st)
     (simp_all add: classify_from_Nil classify_from_Cons snd_classify_step distinct_inner)

lemma reasons_of_classify_from:
  "reasons_of (snd (classify_from srch st cs)) m =
     reasons_of (snd st) m @ concat (map (\<lambda>c. replicate (count_list (srch c) m) c) cs)"
  by (induction cs arbitrary: st)
     (simp_all add: classify_from_Nil classify_from_Cons snd_classify_step reasons_of_inner)

subsection \<open>The index after the loop\<close>

lemma distinct_state_options: "distinct state_options"
  by (simp add: state_options_def)

lemma count_list_replicate: "count_list (replicate n x) y = (if x = y then n else 0)"
  by (induction n) auto

lemma count_list_concat_replicate:
  "count_list (concat (map (\<lambda>c. replicate (f c) c) cs)) c' = count_list cs c' * f c'"
  by (induction cs) (auto simp: count_list_replicate)

lemma count_list_distinct: "distinct xs \<Longrightarrow> count_list xs x = (if x \<in> set xs then 1 else 0)"
  by (induction xs) auto

lemma nodes_with_eq_appended:
  "(\<And>e. e \<in> set reasons \<Longrightarrow> count_list (snd e) c \<le> 1) \<Longrightarrow>
   nodes_with c reasons = appended c reasons"
proof (induction reasons)
  case Nil
  then show ?case by (simp add: nodes_with_def appended_def)
next
  case (Cons e es)
  have le: "count_list (snd e) c \<le> 1" using Cons.prems by simp
  have "count_list (snd e) c = (if c \<in> set (snd e) then 1 else 0)"
    using le count_list_0_iff [of "snd e" c] by (cases "c \<in> set (snd e)") auto
  moreover have "nodes_with c es = appended c es"
    using Cons by simp
  ultimately show ?case
    by (simp add: nodes_with_def appended_def)
qed

lemma entry_is_reasons_of:
  "distinct (keys reasons) \<Longrightarrow> e \<in> set reasons \<Longrightarrow> snd e = reasons_of reasons (fst e)"
  by (cases e) (simp add: reasons_of_def keys_def)

lemma distinct_keys_classify: "distinct (keys (snd (classify srch)))"
  using distinct_classify_from [of "([], [])" srch state_options]
  by (simp add: classify_def keys_def)

lemma reasons_of_classify:
  "reasons_of (snd (classify srch)) m =
     concat (map (\<lambda>c. replicate (count_list (srch c) m) c) state_options)"
  using reasons_of_classify_from [of srch "([], [])" state_options m]
  by (simp add: classify_def reasons_of_def)

lemma keys_classify:
  "set (keys (snd (classify srch))) = (\<Union>c \<in> set state_options. set (srch c))"
  using keys_classify_from [of srch "([], [])" state_options]
  by (simp add: classify_def keys_def)

lemma selected_node_has_reason:
  assumes c: "c \<in> set state_options" and n: "n \<in> set (srch c)"
  shows "\<exists>rs. map_of (snd (classify srch)) n = Some rs \<and> c \<in> set rs"
proof -
  have "n \<in> set (keys (snd (classify srch)))"
    using c n by (auto simp: keys_classify)
  then obtain rs where rs: "map_of (snd (classify srch)) n = Some rs"
    by (auto simp: in_keys_iff)
  then have "rs = reasons_of (snd (classify srch)) n"
    by (simp add: reasons_of_def)
  then have "count_list rs c = count_list state_options c * count_list (srch c) n"
    by (simp add: reasons_of_classify count_list_concat_replicate)
  moreover have "count_list state_options c = 1"
    using c by (simp add: count_list_distinct distinct_state_options)
  moreover have "count_list (srch c) n \<noteq> 0"
    using n by (simp add: count_list_0_iff)
  ultimately have "c \<in> set rs"
    using count_list_0_iff [of rs c] by auto
  with rs show ?thesis by blast
qed

section \<open>Properties of the display loop\<close>

lemma show_node_ok:
  "map_of reasons n \<noteq> None \<Longrightarrow> snd (show_node w bm pm reasons n) = Inr ()"
  by (auto simp: show_node_def Let_def split: option.splits)

lemma show_nodes_ok:
  "\<forall>n \<in> set ns. map_of reasons n \<noteq> None \<Longrightarrow> snd (show_nodes w bm pm reasons ns) = Inr ()"
proof (induction ns)
  case Nil
  then show ?case by simp
next
  case (Cons n ns)
  then have "snd (show_node w bm pm reasons n) = Inr ()"
    by (simp add: show_node_ok)
  then obtain ev where "show_node w bm pm reasons n = (ev, Inr ())"
    by (cases "show_node w bm pm reasons n") auto
  with Cons show ?case
    by (auto split: prod.splits)
qed

lemma show_nodes_Cons_ok:
  "snd (show_node w bm pm reasons n) = Inr () \<Longrightarrow>
   show_nodes w bm pm reasons (n # ns) =
     (fst (show_node w bm pm reasons n) @ fst (show_nodes w bm pm reasons ns),
      snd (show_nodes w bm pm reasons ns))"
  by (cases "show_node w bm pm reasons n") (auto split: prod.splits)

lemma show_nodes_append:
  "snd (show_nodes w bm pm reasons ms) = Inr () \<Longrightarrow>
   show_nodes w bm pm reasons (ms @ ns) =
     (fst (show_nodes w bm pm reasons ms) @ fst (show_nodes w bm pm reasons ns),
      snd (show_nodes w bm pm reasons ns))"
proof (induction ms)
  case Nil
  then show ?case by simp
next
  case (Cons m ms)
  obtain ev r where m: "show_node w bm pm reasons m = (ev, r)"
    by (cases "show_node w bm pm reasons m")
  show ?case
  proof (cases r)
    case (Inl e)
    with m Cons.prems show ?thesis by simp
  next
    case (Inr u)
    with m Cons.prems have "snd (show_nodes w bm pm reasons ms) = Inr ()"
      by (simp split: prod.splits)
    with Cons.IH m Inr show ?thesis
      by (simp split: prod.splits)
  qed
qed

lemma snd_compare_manifests:
  "snd (compare_manifests w bm pm skipped) =
     snd (show_nodes w bm pm (snd (classify (results_of w bm pm)))
            (results_of w bm pm (state_method w)))"
  by (simp add: compare_manifests_def Let_def case_prod_beta)

lemma fst_compare_manifests:
  "fst (compare_manifests w bm pm skipped) =
     (if skipped \<noteq> {} then [large_seeds_warning skipped] else []) @
     [St_bar_chart (fst (classify (results_of w bm pm)))] @
     (if modified_macros w \<noteq> []
      then [St_header [Lit ''Modified macros''], St_write [ReprList (modified_macros w)]]
      else []) @
     [St_header
        [Num (length (results_of w bm pm (state_method w))), Lit '' Selected node'',
         Lit (if length (results_of w bm pm (state_method w)) \<noteq> 1 then ''s'' else [])]] @
     fst (show_nodes w bm pm (snd (classify (results_of w bm pm)))
            (results_of w bm pm (state_method w)))"
  by (simp add: compare_manifests_def Let_def case_prod_beta large_seeds_warning_def)

section \<open>Properties of the script's two parts\<close>

lemma find_manifests_unset:
  "getenv_dbt_home w = None \<or> getenv_dbt_home w = Some [] \<Longrightarrow>
   find_manifests w =
     ([St_warning [Lit ''DATACOVES__DBT_HOME environment variable not set.'']],
      Inr \<lparr>not_found_files = None, production_manifest = None, branch_manifest = None,
           skipped_large_seeds = {}\<rparr>)"
  by (auto simp: find_manifests_def Let_def)

lemma missing_files_nonempty:
  "\<not> (path_exists w a \<and> path_exists w b) \<Longrightarrow> missing_files w a b \<noteq> []"
  by (auto simp: missing_files_def Let_def)

lemma find_manifests_missing:
  assumes "getenv_dbt_home w = Some p" "p \<noteq> []"
    and "\<not> (path_exists w (production_manifest_location p) \<and>
             path_exists w (branch_manifest_location p))"
  shows "find_manifests w =
     ([St_warning
         [Lit (''Manifest files not found: '' @
               join_comma (missing_files w (production_manifest_location p)
                             (branch_manifest_location p)) @
               ''. Please make sure the paths are correct.'')]],
      Inr \<lparr>not_found_files =
              Some (missing_files w (production_manifest_location p) (branch_manifest_location p)),
           production_manifest = None, branch_manifest = None, skipped_large_seeds = {}\<rparr>)"
  using assms by (auto simp: find_manifests_def Let_def)

lemma load_manifest_eq:
  "load_manifest w skipped file_name =
     ([Open_file file_name],
      case json_load w file_name of
        Inl e \<Rightarrow> Inl e
      | Inr loaded \<Rightarrow>
          (case upgrade_schema_version w (fst (remove_large_seeds w loaded)) of
             Inl e \<Rightarrow> Inl e
           | Inr m \<Rightarrow> Inr (m, skipped \<union> snd (remove_large_seeds w loaded))))"
  by (simp add: load_manifest_def Let_def case_prod_beta split: sum.splits)

lemma find_manifests_loaded:
  assumes "getenv_dbt_home w = Some p" "p \<noteq> []"
    and "path_exists w (production_manifest_location p)"
    and "path_exists w (branch_manifest_location p)"
    and "json_load w (production_manifest_location p) = Inr dp"
    and "json_load w (branch_manifest_location p) = Inr db"
    and "upgrade_schema_version w (fst (remove_large_seeds w dp)) = Inr pm"
    and "upgrade_schema_version w (fst (remove_large_seeds w db)) = Inr bm"
  shows "find_manifests w =
     ([Open_file (production_manifest_location p), Open_file (branch_manifest_location p)],
      Inr \<lparr>not_found_files = Some [], production_manifest = Some pm, branch_manifest = Some bm,
           skipped_large_seeds =
             snd (remove_large_seeds w dp) \<union> snd (remove_large_seeds w db)\<rparr>)"
  using assms by (simp add: find_manifests_def Let_def load_manifest_eq)

lemma differ_loaded:
  assumes "getenv_dbt_home w = Some p" "p \<noteq> []"
    and "path_exists w (production_manifest_location p)"
    and "path_exists w (branch_manifest_location p)"
    and "json_load w (production_manifest_location p) = Inr dp"
    and "json_load w (branch_manifest_location p) = Inr db"
    and "upgrade_schema_version w (fst (remove_large_seeds w dp)) = Inr pm"
    and "upgrade_schema_version w (fst (remove_large_seeds w db)) = Inr bm"
  shows "differ w =
     ([Open_file (production_manifest_location p), Open_file (branch_manifest_location p)] @
      fst (compare_manifests w bm pm
             (snd (remove_large_seeds w dp) \<union> snd (remove_large_seeds w db))),
      snd (compare_manifests w bm pm
             (snd (remove_large_seeds w dp) \<union> snd (remove_large_seeds w db))))"
  by (simp add: differ_def find_manifests_loaded [OF assms] comparison_def case_prod_beta)

lemma flat_table_no_seeds_warning:
  "filter is_large_seeds_warning (flat_table w ds) = []"
  by (simp add: flat_table_def split: sum.splits)

lemma show_node_no_seeds_warning:
  "filter is_large_seeds_warning (fst (show_node w bm pm reasons n)) = []"
  by (simp add: show_node_def Let_def flat_table_no_seeds_warning split: option.splits)

lemma show_nodes_no_seeds_warning:
  "filter is_large_seeds_warning (fst (show_nodes w bm pm reasons ns)) = []"
proof (induction ns)
  case Nil
  then show ?case by simp
next
  case (Cons n ns)
  obtain ev r where n: "show_node w bm pm reasons n = (ev, r)"
    by (cases "show_node w bm pm reasons n")
  then have "filter is_large_seeds_warning ev = []"
    using show_node_no_seeds_warning [of w bm pm reasons n] by simp
  with Cons n show ?case
    by (cases r) (simp_all add: case_prod_beta)
qed

section \<open>Properties of the comparison\<close>

lemma displayed_ids_append:
  "displayed_ids (xs @ ys) = displayed_ids xs @ displayed_ids ys"
  by (induction xs rule: displayed_ids.induct) simp_all

lemma displayed_ids_flat_table: "displayed_ids (flat_table w ds) = []"
  by (simp add: flat_table_def split: sum.splits)

lemma displayed_ids_show_node:
  "displayed_ids (fst (show_node w bm pm reasons n)) = [n]"
  by (simp add: show_node_def Let_def displayed_ids_append displayed_ids_flat_table
      split: option.splits)

lemma displayed_ids_show_nodes:
  "snd (show_nodes w bm pm reasons ns) = Inr () \<Longrightarrow>
   displayed_ids (fst (show_nodes w bm pm reasons ns)) = ns"
proof (induction ns)
  case Nil
  then show ?case by simp
next
  case (Cons n ns)
  obtain ev r where n: "show_node w bm pm reasons n = (ev, r)"
    by (cases "show_node w bm pm reasons n")
  then have ev: "displayed_ids ev = [n]"
    using displayed_ids_show_node [of w bm pm reasons n] by simp
  show ?case
  proof (cases r)
    case (Inl e)
    with n Cons.prems show ?thesis by simp
  next
    case (Inr u)
    with n Cons.prems have "snd (show_nodes w bm pm reasons ns) = Inr ()"
      by (simp add: case_prod_beta)
    with Cons.IH n Inr ev show ?thesis
      by (simp add: case_prod_beta displayed_ids_append)
  qed
qed

lemma displayed_ids_compare_manifests:
  assumes "state_method w \<in> set state_options"
  shows "displayed_ids (fst (compare_manifests w bm pm skipped)) =
           results_of w bm pm (state_method w)"
proof -
  have "\<forall>n \<in> set (results_of w bm pm (state_method w)).
          map_of (snd (classify (results_of w bm pm))) n \<noteq> None"
    using selected_node_has_reason [of "state_method w" _ "results_of w bm pm"] assms
    by fastforce
  then have "snd (show_nodes w bm pm (snd (classify (results_of w bm pm)))
                 (results_of w bm pm (state_method w))) = Inr ()"
    by (rule show_nodes_ok)
  then show ?thesis
    by (simp add: fst_compare_manifests displayed_ids_append displayed_ids_show_nodes
        large_seeds_warning_def)
qed

lemma new_node_in_results:
  "n \<in> set (keys (nodes bm)) \<Longrightarrow> n \<notin> set (keys (nodes pm)) \<Longrightarrow>
   n \<in> set (results_of w bm pm ''new'')"
  by (force simp: results_of_def search_def included_nodes_def keys_def in_keys_iff
      map_of_eq_None_iff)

lemma results_in_branch: "set (results_of w bm pm c) \<subseteq> set (keys (nodes bm))"
  by (auto simp: results_of_def search_def keys_def)

lemma classified_ids_in_branch:
  "set (keys (snd (classify (results_of w bm pm)))) \<subseteq> set (keys (nodes bm))"
  using results_in_branch [of w bm pm] by (auto simp: keys_classify)

lemma show_nodes_contains:
  assumes "n \<in> set ns" and "\<forall>m \<in> set ns. map_of reasons m \<noteq> None"
  shows "\<exists>before after.
           fst (show_nodes w bm pm reasons ns) =
             before @ fst (show_node w bm pm reasons n) @ after"
proof -
  obtain xs ys where ns: "ns = xs @ n # ys"
    using assms(1) by (auto dest: split_list)
  have xs: "snd (show_nodes w bm pm reasons xs) = Inr ()"
    using assms(2) ns by (intro show_nodes_ok) simp
  have n: "snd (show_node w bm pm reasons n) = Inr ()"
    using assms by (simp add: show_node_ok)
  have "show_nodes w bm pm reasons (n # ys) =
          (fst (show_node w bm pm reasons n) @ fst (show_nodes w bm pm reasons ys),
           snd (show_nodes w bm pm reasons ys))"
    by (rule show_nodes_Cons_ok [OF n])
  then have "fst (show_nodes w bm pm reasons ns) =
          fst (show_nodes w bm pm reasons xs) @ fst (show_node w bm pm reasons n) @
          fst (show_nodes w bm pm reasons ys)"
    unfolding ns show_nodes_append [OF xs] by simp
  then show ?thesis by blast
qed

lemma compare_manifests_contains:
  assumes "state_method w \<in> set state_options"
    and "n \<in> set (results_of w bm pm (state_method w))"
  shows "\<exists>before after.
           fst (compare_manifests w bm pm skipped) =
             before @ fst (show_node w bm pm (snd (classify (results_of w bm pm))) n) @ after"
proof -
  have "\<forall>m \<in> set (results_of w bm pm (state_method w)).
          map_of (snd (classify (results_of w bm pm))) m \<noteq> None"
    using selected_node_has_reason [of "state_method w" _ "results_of w bm pm"] assms(1)
    by fastforce
  from show_nodes_contains [OF assms(2) this, of w bm pm]
  obtain before after where
    "fst (show_nodes w bm pm (snd (classify (results_of w bm pm)))
            (results_of w bm pm (state_method w))) =
       before @ fst (show_node w bm pm (snd (classify (results_of w bm pm))) n) @ after"
    by blast
  then have "fst (compare_manifests w bm pm skipped) =
     ((if skipped \<noteq> {} then [large_seeds_warning skipped] else []) @
     [St_bar_chart (fst (classify (results_of w bm pm)))] @
     (if modified_macros w \<noteq> []
      then [St_header [Lit ''Modified macros''], St_write [ReprList (modified_macros w)]]
      else []) @
     [St_header
        [Num (length (results_of w bm pm (state_method w))), Lit '' Selected node'',
         Lit (if length (results_of w bm pm (state_method w)) \<noteq> 1 then ''s'' else [])]] @
     before) @ fst (show_node w bm pm (snd (classify (results_of w bm pm))) n) @ after"
    by (simp add: fst_compare_manifests)
  then show ?thesis by blast
qed

lemma compare_manifests_ok:
  "state_method w \<in> set state_options \<Longrightarrow> snd (compare_manifests w bm pm skipped) = Inr ()"
proof -
  assume sm: "state_method w \<in> set state_options"
  have "\<forall>m \<in> set (results_of w bm pm (state_method w)).
          map_of (snd (classify (results_of w bm pm))) m \<noteq> None"
    using selected_node_has_reason [of "state_method w" _ "results_of w bm pm"] sm
    by fastforce
  then show ?thesis
    by (simp add: snd_compare_manifests show_nodes_ok)
qed

section \<open>The small project evaluated\<close>

lemma demo_search_modified: "demo_search ''modified'' = [''model.a'', ''model.b'']"
  by code_simp

lemma demo_search_macros: "demo_search ''modified.macros'' = []"
  by code_simp

lemma demo_locations:
  "production_manifest_location ''/project'' = ''/project/logs/manifest.json''"
  "branch_manifest_location ''/project'' = ''/project/target/manifest.json''"
  by (simp_all add: production_manifest_location_def branch_manifest_location_def path_join_def)

section \<open>Claims about the diff mapping\<close>

text \<open>
  Claim C1, as amended. For two node records and any list of ignored properties, a field
  key is in the per-node diff mapping exactly when it is a key of one of the two records,
  is not ignored, and is missing from one side or has values on the two sides that
  \<^verbatim>\<open>!=\<close> tells apart (unequal values, or a float NaN on either side). Its entry is then
  the diff of the two looked-up values, and no key stands twice. So when the two records
  agree on every field that is not ignored, and none of these fields is a float NaN, the
  diff mapping is empty.
\<close>

theorem diffs_contains_exactly_changed_fields:
  "(k \<in> set (keys (diffs jd ign l r)) \<longleftrightarrow>
      k \<in> set (keys l) \<union> set (keys r) \<and> k \<notin> set ign \<and>
      (k \<notin> set (keys l) \<or> k \<notin> set (keys r) \<or>
       (\<exists>lv rv. map_of l k = Some lv \<and> map_of r k = Some rv \<and> py_ne lv rv)))
   \<and> (k \<in> set (keys (diffs jd ign l r)) \<longrightarrow>
        map_of (diffs jd ign l r) k = Some (jd (dict_get l k) (dict_get r k)))
   \<and> distinct (keys (diffs jd ign l r))
   \<and> ((\<forall>k'. k' \<notin> set ign \<longrightarrow> map_of l k' = map_of r k' \<and> map_of l k' \<noteq> Some PyNaN) \<longrightarrow>
        diffs jd ign l r = [])"
proof (intro conjI)
  show "k \<in> set (keys (diffs jd ign l r)) \<longleftrightarrow>
      k \<in> set (keys l) \<union> set (keys r) \<and> k \<notin> set ign \<and>
      (k \<notin> set (keys l) \<or> k \<notin> set (keys r) \<or>
       (\<exists>lv rv. map_of l k = Some lv \<and> map_of r k = Some rv \<and> py_ne lv rv))"
    by (auto simp: keys_diffs all_keys_def differs_at_iff)
  show "k \<in> set (keys (diffs jd ign l r)) \<longrightarrow>
        map_of (diffs jd ign l r) k = Some (jd (dict_get l k) (dict_get r k))"
    by (simp add: keys_diffs map_of_diffs)
  show "distinct (keys (diffs jd ign l r))"
    by (rule distinct_keys_diffs)
  show "(\<forall>k'. k' \<notin> set ign \<longrightarrow> map_of l k' = map_of r k' \<and> map_of l k' \<noteq> Some PyNaN) \<longrightarrow>
        diffs jd ign l r = []"
  proof
    assume same: "\<forall>k'. k' \<notin> set ign \<longrightarrow> map_of l k' = map_of r k' \<and> map_of l k' \<noteq> Some PyNaN"
    have "\<not> (k' \<notin> set ign \<and> differs_at l r k')" if "k' \<in> set (all_keys l r)" for k'
      using that same by (auto simp: differs_at_iff all_keys_def in_keys_iff py_ne_iff)
    then have "filter (\<lambda>k. k \<notin> set ign \<and> differs_at l r k) (all_keys l r) = []"
      by (simp add: filter_empty_conv)
    then show "diffs jd ign l r = []"
      by (simp add: diffs_def)
  qed
qed

text \<open>
  The claim at two records that differ in the body and in the ignored \<^verbatim>\<open>created_at\<close>,
  at two records that differ in \<^verbatim>\<open>created_at\<close> only, and at two records whose ignored
  \<^verbatim>\<open>created_at\<close> is NaN.
\<close>

theorem diffs_contains_exactly_changed_fields_witness:
  "''body'' \<in> set (keys (diffs Pair [''created_at'']
       [(''body'', PyVal ''select 1''), (''created_at'', PyVal ''1'')]
       [(''body'', PyVal ''select 2''), (''created_at'', PyVal ''2'')]))
   \<and> map_of (diffs Pair [''created_at'']
       [(''body'', PyVal ''select 1''), (''created_at'', PyVal ''1'')]
       [(''body'', PyVal ''select 2''), (''created_at'', PyVal ''2'')]) ''body''
     = Some (PyVal ''select 1'', PyVal ''select 2'')
   \<and> diffs Pair [''created_at'']
       [(''body'', PyVal ''select 1''), (''created_at'', PyVal ''1'')]
       [(''body'', PyVal ''select 1''), (''created_at'', PyVal ''2'')] = []
   \<and> diffs Pair [''created_at'']
       [(''body'', PyVal ''select 1''), (''created_at'', PyNaN)]
       [(''body'', PyVal ''select 1''), (''created_at'', PyNaN)] = []"
  using diffs_contains_exactly_changed_fields [of "''body''" Pair "[''created_at'']"
       "[(''body'', PyVal ''select 1''), (''created_at'', PyVal ''1'')]"
       "[(''body'', PyVal ''select 2''), (''created_at'', PyVal ''2'')]"]
    diffs_contains_exactly_changed_fields [of "''body''" Pair "[''created_at'']"
       "[(''body'', PyVal ''select 1''), (''created_at'', PyVal ''1'')]"
       "[(''body'', PyVal ''select 1''), (''created_at'', PyVal ''2'')]"]
    diffs_contains_exactly_changed_fields [of "''body''" Pair "[''created_at'']"
       "[(''body'', PyVal ''select 1''), (''created_at'', PyNaN)]"
       "[(''body'', PyVal ''select 1''), (''created_at'', PyNaN)]"]
  by (simp add: keys_def dict_get_def)

text \<open>
  Claim C1 as it is stated fails for a float NaN: the two records are identical, nothing
  is ignored, and the diff mapping still has an entry for \<^verbatim>\<open>created_at\<close>, because
  \<^verbatim>\<open>nan != nan\<close> holds.
\<close>

theorem nan_field_counterexample:
  "diffs Pair [] [(''created_at'', PyNaN :: string pyval)] [(''created_at'', PyNaN)]
     = [(''created_at'', (PyNaN, PyNaN))]"
  by (simp add: diffs_def all_keys_def keys_def differs_at_def dict_get_def)

text \<open>
  Claim C10, as amended. A field key that is present in exactly one of the two node
  records and is not among the ignored properties is in the per-node diff mapping, and
  its entry is the diff of the present value against \<^verbatim>\<open>None\<close>. This holds also when the
  present value is \<^verbatim>\<open>None\<close>, where both lookups yield \<^verbatim>\<open>None\<close>.
\<close>

theorem one_sided_key_is_diffed:
  "k \<notin> set ign \<Longrightarrow>
   (map_of l k = Some v \<and> map_of r k = None \<longrightarrow>
      map_of (diffs jd ign l r) k = Some (jd v PyNone)) \<and>
   (map_of l k = None \<and> map_of r k = Some v \<longrightarrow>
      map_of (diffs jd ign l r) k = Some (jd PyNone v))"
  by (auto simp: map_of_diffs differs_at_def dict_get_def all_keys_def in_keys_iff)

theorem one_sided_key_is_diffed_witness:
  "map_of (diffs Pair [''created_at''] [(''alias'', PyNone :: string pyval)] []) ''alias''
     = Some (PyNone, PyNone)
   \<and> map_of (diffs Pair [''created_at''] [] [(''alias'', PyVal ''a'')]) ''alias''
     = Some (PyNone, PyVal ''a'')"
  using one_sided_key_is_diffed [of "''alias''" "[''created_at'']"
          "[(''alias'', PyNone)]" PyNone "[]" Pair]
    one_sided_key_is_diffed [of "''alias''" "[''created_at'']"
          "[]" "PyVal ''a''" "[(''alias'', PyVal ''a'')]" Pair]
  by simp

text \<open>
  Claim C10 as it is stated fails for an ignored key: \<^verbatim>\<open>compiled_path\<close> is present in the
  left record only, it is ignored, and the diff mapping has no entry for it.
\<close>

theorem ignored_one_sided_key_counterexample:
  "map_of [(''compiled_path'', PyVal ''target/a.sql'')] ''compiled_path''
     = Some (PyVal ''target/a.sql'')
   \<and> map_of ([] :: (string, string pyval) dict) ''compiled_path'' = None
   \<and> map_of (diffs Pair [''compiled_path''] [(''compiled_path'', PyVal ''target/a.sql'')] [])
        ''compiled_path'' = None"
  by (simp add: diffs_def all_keys_def keys_def)

section \<open>Claims about the classification\<close>

text \<open>
  Claim C2. After the loop over the eight categories, the counts dictionary has exactly
  the eight categories as keys. The count recorded for a category is the length of its
  result list (zero for a category that matches no node) and equals the number of times
  the category was appended to the reasons index; when the comparator yields each node
  once, this is the number of nodes that have the category among their reasons. The
  lengths of all reason lists add up to the sum of all counts.
\<close>

theorem classification_counts_match_reasons:
  "keys (fst (classify srch)) = state_options
   \<and> (\<forall>c \<in> set state_options.
         map_of (fst (classify srch)) c = Some (length (srch c))
       \<and> length (srch c) = appended c (snd (classify srch))
       \<and> (distinct (srch c) \<longrightarrow> length (srch c) = nodes_with c (snd (classify srch))))
   \<and> sum_reasons (snd (classify srch)) = sum_counts (fst (classify srch))"
proof -
  let ?counts = "fst (classify srch)" and ?reasons = "snd (classify srch)"
  have counts: "?counts = map (\<lambda>c. (c, length (srch c))) state_options"
    using counts_classify_from [OF distinct_state_options, of "([], [])" srch]
    by (simp add: classify_def keys_def)
  have keys: "keys ?counts = state_options"
    by (simp add: counts keys_def comp_def)
  have lookup: "map_of ?counts c = Some (length (srch c))" if "c \<in> set state_options" for c
    using that by (simp add: counts map_of_map_restrict)
  have app: "length (srch c) = appended c ?reasons" if "c \<in> set state_options" for c
    using that appended_classify_from [of c srch "([], [])" state_options]
    by (simp add: classify_def count_list_distinct [OF distinct_state_options] appended_def)
  have nw: "length (srch c) = nodes_with c ?reasons"
    if c: "c \<in> set state_options" and d: "distinct (srch c)" for c
  proof -
    have "count_list (snd e) c \<le> 1" if e: "e \<in> set ?reasons" for e
    proof -
      have "snd e = reasons_of ?reasons (fst e)"
        by (rule entry_is_reasons_of [OF distinct_keys_classify e])
      then show ?thesis
        using c d
        by (simp add: reasons_of_classify count_list_concat_replicate count_list_distinct
            distinct_state_options)
    qed
    then have "nodes_with c ?reasons = appended c ?reasons"
      by (rule nodes_with_eq_appended)
    with app [OF c] show ?thesis by simp
  qed
  have "sum_reasons ?reasons = sum_list (map (\<lambda>c. length (srch c)) state_options)"
    using sum_reasons_classify_from [of srch "([], [])" state_options]
    by (simp add: classify_def sum_reasons_def)
  also have "\<dots> = sum_counts ?counts"
    by (simp add: counts sum_counts_def comp_def)
  finally have total: "sum_reasons ?reasons = sum_counts ?counts" .
  show ?thesis
    using keys lookup app nw total by blast
qed

text \<open>
  The claim on the small project: \<^verbatim>\<open>modified\<close> matches two nodes, \<^verbatim>\<open>modified.macros\<close>
  matches none, and nine reasons are recorded in all.
\<close>

theorem classification_counts_match_reasons_witness:
  "map_of (fst (classify demo_search)) ''modified'' = Some 2
   \<and> appended ''modified'' (snd (classify demo_search)) = 2
   \<and> nodes_with ''modified'' (snd (classify demo_search)) = 2
   \<and> map_of (fst (classify demo_search)) ''modified.macros'' = Some 0
   \<and> appended ''modified.macros'' (snd (classify demo_search)) = 0
   \<and> sum_reasons (snd (classify demo_search)) = 9"
proof -
  note claim = classification_counts_match_reasons [of demo_search]
  have m: "''modified'' \<in> set state_options" and c: "''modified.macros'' \<in> set state_options"
    by (simp_all add: state_options_def)
  have d: "distinct (demo_search ''modified'')"
    by (simp add: demo_search_modified)
  have s: "sum_counts (fst (classify demo_search)) = 9"
    by code_simp
  from claim m d have
    "map_of (fst (classify demo_search)) ''modified'' = Some (length (demo_search ''modified''))
     \<and> length (demo_search ''modified'') = appended ''modified'' (snd (classify demo_search))
     \<and> length (demo_search ''modified'') = nodes_with ''modified'' (snd (classify demo_search))"
    by blast
  moreover from claim c have
    "map_of (fst (classify demo_search)) ''modified.macros''
       = Some (length (demo_search ''modified.macros''))
     \<and> length (demo_search ''modified.macros'')
       = appended ''modified.macros'' (snd (classify demo_search))"
    by blast
  moreover from claim s have "sum_reasons (snd (classify demo_search)) = 9"
    by simp
  ultimately show ?thesis
    by (simp add: demo_search_modified demo_search_macros)
qed

text \<open>
  Claim C9. The selected comparison method is one of the eight categories, and the
  selected nodes are the result of the same search that the classification loop made
  for that category. So every selected node has an entry in the reasons index, the entry
  holds the selected method, and neither the loop over the selected nodes nor the
  comparison as a whole ends with a \<open>KeyError\<close> (or any other exception).
\<close>

theorem selected_nodes_have_reasons:
  assumes "sm \<in> set state_options"
  shows "(\<forall>n \<in> set (srch sm). \<exists>rs. map_of (snd (classify srch)) n = Some rs \<and> sm \<in> set rs)
         \<and> snd (show_nodes w bm pm (snd (classify srch)) (srch sm)) = Inr ()
         \<and> (state_method w = sm \<longrightarrow> snd (compare_manifests w bm pm skipped) = Inr ())"
proof -
  have has: "\<exists>rs. map_of (snd (classify srch')) n = Some rs \<and> sm \<in> set rs"
    if "n \<in> set (srch' sm)" for n srch'
    using selected_node_has_reason [of sm n srch'] assms that by simp
  have ok: "snd (show_nodes w bm pm (snd (classify srch')) (srch' sm)) = Inr ()" for srch'
  proof (rule show_nodes_ok)
    show "\<forall>n \<in> set (srch' sm). map_of (snd (classify srch')) n \<noteq> None"
      using has [of _ srch'] by fastforce
  qed
  have "snd (compare_manifests w bm pm skipped) = Inr ()" if "state_method w = sm"
    using that ok [of "results_of w bm pm"] by (simp add: snd_compare_manifests)
  with has [of _ srch] ok [of srch] show ?thesis by blast
qed

text \<open>The claim on the small project, where the selected method is \<^verbatim>\<open>modified\<close>.\<close>

theorem selected_nodes_have_reasons_witness:
  "map_of (snd (classify (results_of demo_world demo_branch demo_production))) ''model.b''
     = Some [''modified'', ''new'', ''modified.body'', ''modified.configs'',
             ''modified.persisted_descriptions'', ''modified.relation'', ''modified.contract'']
   \<and> snd (compare_manifests demo_world demo_branch demo_production {}) = Inr ()"
proof -
  have sm: "state_method demo_world \<in> set state_options"
    by (simp add: demo_world_def state_options_def)
  have "map_of (snd (classify (results_of demo_world demo_branch demo_production))) ''model.b''
     = Some [''modified'', ''new'', ''modified.body'', ''modified.configs'',
             ''modified.persisted_descriptions'', ''modified.relation'', ''modified.contract'']"
    by code_simp
  with selected_nodes_have_reasons [OF sm, of demo_search demo_world demo_branch demo_production "{}"]
  show ?thesis by simp
qed


section \<open>Claims about the script as a whole\<close>

text \<open>
  Claim C8. When the environment variable \<^verbatim>\<open>DATACOVES__DBT_HOME\<close> is not set, the script
  shows the warning of line 76 and then ends with the \<open>NameError\<close> that the guard of
  line 78 raises for \<^verbatim>\<open>not_found_files\<close>: the name is assigned only in the branch of
  line 58.
\<close>

theorem unset_home_raises_name_error:
  "getenv_dbt_home w = None \<Longrightarrow>
   differ w =
     ([St_warning [Lit ''DATACOVES__DBT_HOME environment variable not set.'']],
      Inl (NameError ''not_found_files''))"
  by (simp add: differ_def find_manifests_unset comparison_def)

theorem unset_home_raises_name_error_witness:
  "getenv_dbt_home (demo_world\<lparr>getenv_dbt_home := None\<rparr>) = None
   \<and> differ (demo_world\<lparr>getenv_dbt_home := None\<rparr>) =
     ([St_warning [Lit ''DATACOVES__DBT_HOME environment variable not set.'']],
      Inl (NameError ''not_found_files''))"
  using unset_home_raises_name_error [of "demo_world\<lparr>getenv_dbt_home := None\<rparr>"]
  by simp

text \<open>
  Claim C5. The two manifest files are looked for under the project directory that the
  environment variable names. When one of them (or both) is missing, the whole run
  consists of two warnings, the first naming the missing files: no file is opened, no
  classification is made and nothing else is shown.
\<close>

theorem missing_manifest_stops_pipeline:
  assumes "getenv_dbt_home w = Some p" "p \<noteq> []"
    and "\<not> (path_exists w (production_manifest_location p) \<and>
             path_exists w (branch_manifest_location p))"
  shows "differ w =
     ([St_warning
         [Lit (''Manifest files not found: '' @
               join_comma (missing_files w (production_manifest_location p)
                             (branch_manifest_location p)) @
               ''. Please make sure the paths are correct.'')],
       St_warning [Lit ''Production and branch manifests needed to perform comparison'']],
      Inr ())
     \<and> missing_files w (production_manifest_location p) (branch_manifest_location p) =
         (if path_exists w (production_manifest_location p) then []
          else [''Production manifest file'']) @
         (if path_exists w (branch_manifest_location p) then []
          else [''Branch manifest file''])
     \<and> missing_files w (production_manifest_location p) (branch_manifest_location p) \<noteq> []"
proof -
  have ne: "missing_files w (production_manifest_location p) (branch_manifest_location p) \<noteq> []"
    using assms(3) by (rule missing_files_nonempty)
  have "differ w =
     ([St_warning
         [Lit (''Manifest files not found: '' @
               join_comma (missing_files w (production_manifest_location p)
                             (branch_manifest_location p)) @
               ''. Please make sure the paths are correct.'')],
       St_warning [Lit ''Production and branch manifests needed to perform comparison'']],
      Inr ())"
    using ne by (simp add: differ_def find_manifests_missing [OF assms] comparison_def)
  moreover have "missing_files w (production_manifest_location p) (branch_manifest_location p) =
         (if path_exists w (production_manifest_location p) then []
          else [''Production manifest file'']) @
         (if path_exists w (branch_manifest_location p) then []
          else [''Branch manifest file''])"
    by (simp add: missing_files_def Let_def)
  ultimately show ?thesis using ne by simp
qed

text \<open>
  The claim on the small project, once without the production manifest and once without
  both files.
\<close>

theorem missing_manifest_stops_pipeline_witness:
  "differ (demo_world\<lparr>path_exists := (\<lambda>f. f = ''/project/target/manifest.json'')\<rparr>) =
     ([St_warning
         [Lit ''Manifest files not found: Production manifest file. Please make sure the paths are correct.''],
       St_warning [Lit ''Production and branch manifests needed to perform comparison'']],
      Inr ())
   \<and> differ (demo_world\<lparr>path_exists := (\<lambda>f. False)\<rparr>) =
     ([St_warning
         [Lit ''Manifest files not found: Production manifest file, Branch manifest file. Please make sure the paths are correct.''],
       St_warning [Lit ''Production and branch manifests needed to perform comparison'']],
      Inr ())"
  using missing_manifest_stops_pipeline
          [of "demo_world\<lparr>path_exists := (\<lambda>f. f = ''/project/target/manifest.json'')\<rparr>"
              "''/project''"]
        missing_manifest_stops_pipeline
          [of "demo_world\<lparr>path_exists := (\<lambda>f. False)\<rparr>" "''/project''"]
  by (simp add: demo_world_def demo_locations)

text \<open>
  Claim C4. \<^verbatim>\<open>load_manifest\<close> hands to the schema normalisation the document that the
  removal of the large seeds returns, and adds the removed ids to the set it was given.
  When both manifests load, the set of the comparison is the union of the ids removed from
  the two documents, and the run shows the large-seeds warning with that set once when
  the set is not empty, and not at all when it is empty.
\<close>

theorem large_seeds_elided_and_reported:
  assumes "getenv_dbt_home w = Some p" "p \<noteq> []"
    and "path_exists w (production_manifest_location p)"
    and "path_exists w (branch_manifest_location p)"
    and "json_load w (production_manifest_location p) = Inr dp"
    and "json_load w (branch_manifest_location p) = Inr db"
    and "upgrade_schema_version w (fst (remove_large_seeds w dp)) = Inr pm"
    and "upgrade_schema_version w (fst (remove_large_seeds w db)) = Inr bm"
  shows "load_manifest w skipped file_name =
           ([Open_file file_name],
            case json_load w file_name of
              Inl e \<Rightarrow> Inl e
            | Inr loaded \<Rightarrow>
                (case upgrade_schema_version w (fst (remove_large_seeds w loaded)) of
                   Inl e \<Rightarrow> Inl e
                 | Inr m \<Rightarrow> Inr (m, skipped \<union> snd (remove_large_seeds w loaded))))
         \<and> find_manifests w =
           ([Open_file (production_manifest_location p), Open_file (branch_manifest_location p)],
            Inr \<lparr>not_found_files = Some [], production_manifest = Some pm,
                 branch_manifest = Some bm,
                 skipped_large_seeds =
                   snd (remove_large_seeds w dp) \<union> snd (remove_large_seeds w db)\<rparr>)
         \<and> filter is_large_seeds_warning (fst (differ w)) =
             (if snd (remove_large_seeds w dp) \<union> snd (remove_large_seeds w db) = {} then []
              else [large_seeds_warning
                      (snd (remove_large_seeds w dp) \<union> snd (remove_large_seeds w db))])"
proof -
  let ?S = "snd (remove_large_seeds w dp) \<union> snd (remove_large_seeds w db)"
  have "filter is_large_seeds_warning (fst (differ w)) =
          filter is_large_seeds_warning (fst (compare_manifests w bm pm ?S))"
    by (simp add: differ_loaded [OF assms])
  also have "\<dots> = (if ?S = {} then [] else [large_seeds_warning ?S])"
    by (simp add: fst_compare_manifests show_nodes_no_seeds_warning large_seeds_warning_def)
  finally show ?thesis
    using load_manifest_eq [of w skipped file_name] find_manifests_loaded [OF assms]
    by simp
qed

text \<open>The claim on the small project, whose branch manifest has one large seed.\<close>

theorem large_seeds_elided_and_reported_witness:
  "find_manifests demo_world =
     ([Open_file ''/project/logs/manifest.json'', Open_file ''/project/target/manifest.json''],
      Inr \<lparr>not_found_files = Some [], production_manifest = Some demo_production,
           branch_manifest = Some demo_branch, skipped_large_seeds = {''seed.big''}\<rparr>)
   \<and> filter is_large_seeds_warning (fst (differ demo_world)) =
       [large_seeds_warning {''seed.big''}]"
  using large_seeds_elided_and_reported
          [of demo_world "''/project''" "''/project/logs/manifest.json''"
              "''/project/target/manifest.json''" demo_production demo_branch]
  by (simp add: demo_world_def demo_locations)

section \<open>Claims about the display of one node\<close>

text \<open>
  Claim C6. When \<^verbatim>\<open>flatten_keys\<close> raises for the diff mapping of a node that both
  manifests hold, the exception is caught: the node's part of the display still has the
  JSON tree of the diffs and the right node's record, then the error message with the
  exception, then the divider, and it ends normally. The loop goes on with the nodes
  after it, whose part of the display is what the loop shows for them in any case.
\<close>

theorem flatten_failure_is_isolated:
  assumes "map_of (nodes bm) unique_id = Some left_node"
    and "map_of (nodes pm) unique_id = Some right_node"
    and "map_of reasons unique_id = Some rs"
    and "flatten_keys w (diffs (jsondiff w) (properties_to_ignore w)
           (to_dict left_node) (to_dict right_node)) = Inl e"
    and "snd (show_nodes w bm pm reasons before) = Inr ()"
  shows "show_node w bm pm reasons unique_id =
           ([St_subheader unique_id,
             St_write [Lit ''##### State selectors that find this node:''],
             St_code rs] @
            (if depends_on_macros left_node \<noteq> [] \<and> modified_macros w \<noteq> []
             then [St_write [Lit ''Depends on macros: '', ReprList (depends_on_macros left_node)]]
             else []) @
            [St_write [Lit ''##### JSON tree of diffs:''],
             St_json_diffs (diffs (jsondiff w) (properties_to_ignore w)
                              (to_dict left_node) (to_dict right_node)),
             St_write [Lit ''##### JSON tree of all elements in right node:''],
             St_json_right (to_dict right_node),
             St_write [Lit ''##### Flat table of diffs:''],
             St_error [Lit ''Couldn't print as table: '', ReprExn e],
             St_divider],
            Inr ())
         \<and> show_nodes w bm pm reasons (before @ unique_id # rest) =
             (fst (show_nodes w bm pm reasons before) @
              fst (show_node w bm pm reasons unique_id) @
              fst (show_nodes w bm pm reasons rest),
              snd (show_nodes w bm pm reasons rest))"
proof -
  have node: "show_node w bm pm reasons unique_id =
           ([St_subheader unique_id,
             St_write [Lit ''##### State selectors that find this node:''],
             St_code rs] @
            (if depends_on_macros left_node \<noteq> [] \<and> modified_macros w \<noteq> []
             then [St_write [Lit ''Depends on macros: '', ReprList (depends_on_macros left_node)]]
             else []) @
            [St_write [Lit ''##### JSON tree of diffs:''],
             St_json_diffs (diffs (jsondiff w) (properties_to_ignore w)
                              (to_dict left_node) (to_dict right_node)),
             St_write [Lit ''##### JSON tree of all elements in right node:''],
             St_json_right (to_dict right_node),
             St_write [Lit ''##### Flat table of diffs:''],
             St_error [Lit ''Couldn't print as table: '', ReprExn e],
             St_divider],
            Inr ())"
    using assms(1-4) by (simp add: show_node_def Let_def flat_table_def)
  then have "snd (show_node w bm pm reasons unique_id) = Inr ()"
    by simp
  then have "show_nodes w bm pm reasons (unique_id # rest) =
     (fst (show_node w bm pm reasons unique_id) @ fst (show_nodes w bm pm reasons rest),
      snd (show_nodes w bm pm reasons rest))"
    by (rule show_nodes_Cons_ok)
  with show_nodes_append [OF assms(5), of "unique_id # rest"] node show ?thesis
    by simp
qed

text \<open>
  The claim on the small project, where flattening fails for \<^verbatim>\<open>model.a\<close> and the loop
  goes on to show the new node \<^verbatim>\<open>model.b\<close>.
\<close>

theorem flatten_failure_is_isolated_witness:
  "show_nodes demo_world demo_branch demo_production
     [(''model.a'', [''modified'', ''modified.body'']), (''model.b'', [''modified'', ''new''])]
     [''model.a'', ''model.b''] =
     ([St_subheader ''model.a'',
       St_write [Lit ''##### State selectors that find this node:''],
       St_code [''modified'', ''modified.body''],
       St_write [Lit ''##### JSON tree of diffs:''],
       St_json_diffs [(''body'', PyVal ''select 2'', PyVal ''select 1'')],
       St_write [Lit ''##### JSON tree of all elements in right node:''],
       St_json_right [(''body'', PyVal ''select 1''), (''created_at'', PyVal ''1'')],
       St_write [Lit ''##### Flat table of diffs:''],
       St_error [Lit ''Couldn't print as table: '', ReprExn (Raised ''ValueError'')],
       St_divider,
       St_subheader ''model.b'',
       St_warning [Lit ''Missing from production manifest (new node)''],
       St_write [Lit ''State methods that pick this node up:''],
       St_code [''modified'', ''new''],
       St_divider],
      Inr ())"
proof -
  have rest: "show_nodes demo_world demo_branch demo_production
     [(''model.a'', [''modified'', ''modified.body'']), (''model.b'', [''modified'', ''new''])]
     [''model.b''] =
     ([St_subheader ''model.b'',
       St_warning [Lit ''Missing from production manifest (new node)''],
       St_write [Lit ''State methods that pick this node up:''],
       St_code [''modified'', ''new''],
       St_divider],
      Inr ())"
    by code_simp
  have ds: "diffs Pair default_properties_to_ignore
             [(''body'', PyVal ''select 2''), (''created_at'', PyVal ''2'')]
             [(''body'', PyVal ''select 1''), (''created_at'', PyVal ''1'')]
           = [(''body'', PyVal ''select 2'', PyVal ''select 1'')]"
    by code_simp
  show ?thesis
    using flatten_failure_is_isolated
      [where w = demo_world and bm = demo_branch and pm = demo_production
         and unique_id = "''model.a''"
         and left_node = "\<lparr>to_dict = [(''body'', PyVal ''select 2''), (''created_at'', PyVal ''2'')],
                            depends_on_macros = []\<rparr>"
         and right_node = "\<lparr>to_dict = [(''body'', PyVal ''select 1''), (''created_at'', PyVal ''1'')],
                            depends_on_macros = []\<rparr>"
         and reasons = "[(''model.a'', [''modified'', ''modified.body'']),
                         (''model.b'', [''modified'', ''new''])]"
         and rs = "[''modified'', ''modified.body'']"
         and e = "Raised ''ValueError''" and before = "[]" and rest = "[''model.b'']"]
      rest ds
    by (simp add: demo_world_def demo_branch_def demo_production_def)
qed

section \<open>Claims about nodes that only one manifest holds\<close>

text \<open>
  Claim C3, as amended. A node that only the branch manifest holds is not an error. It is
  classified as new: the search for \<^verbatim>\<open>new\<close> yields it, the reasons index has an entry for
  it, and the entry holds \<^verbatim>\<open>new\<close>. The loop body reports it as a new node: the subheader
  with its id, the warning that it is missing from the production manifest, its reasons
  and the divider. Whenever the selected comparison method selects the node, the
  comparison ends normally and what it shows contains this report of the node; so does
  the whole run of the script when the two manifests are the ones it has loaded.
\<close>

theorem branch_only_node_is_new:
  assumes "unique_id \<in> set (keys (nodes bm))" and "unique_id \<notin> set (keys (nodes pm))"
  shows "unique_id \<in> set (results_of w bm pm ''new'')
         \<and> (\<exists>rs. map_of (snd (classify (results_of w bm pm))) unique_id = Some rs
              \<and> ''new'' \<in> set rs
              \<and> show_node w bm pm (snd (classify (results_of w bm pm))) unique_id =
                  ([St_subheader unique_id,
                    St_warning [Lit ''Missing from production manifest (new node)''],
                    St_write [Lit ''State methods that pick this node up:''],
                    St_code rs,
                    St_divider],
                   Inr ())
              \<and> (state_method w \<in> set state_options \<longrightarrow>
                  unique_id \<in> set (results_of w bm pm (state_method w)) \<longrightarrow>
                    snd (compare_manifests w bm pm skipped) = Inr ()
                  \<and> (\<exists>before after.
                        fst (compare_manifests w bm pm skipped) =
                          before @
                          [St_subheader unique_id,
                           St_warning [Lit ''Missing from production manifest (new node)''],
                           St_write [Lit ''State methods that pick this node up:''],
                           St_code rs,
                           St_divider] @ after)
                  \<and> (\<forall>p dp db.
                        getenv_dbt_home w = Some p \<longrightarrow> p \<noteq> [] \<longrightarrow>
                        path_exists w (production_manifest_location p) \<longrightarrow>
                        path_exists w (branch_manifest_location p) \<longrightarrow>
                        json_load w (production_manifest_location p) = Inr dp \<longrightarrow>
                        json_load w (branch_manifest_location p) = Inr db \<longrightarrow>
                        upgrade_schema_version w (fst (remove_large_seeds w dp)) = Inr pm \<longrightarrow>
                        upgrade_schema_version w (fst (remove_large_seeds w db)) = Inr bm \<longrightarrow>
                          snd (differ w) = Inr ()
                        \<and> (\<exists>before after.
                              fst (differ w) =
                                before @
                                [St_subheader unique_id,
                                 St_warning [Lit ''Missing from production manifest (new node)''],
                                 St_write [Lit ''State methods that pick this node up:''],
                                 St_code rs,
                                 St_divider] @ after))))"
proof -
  let ?index = "snd (classify (results_of w bm pm))"
  have new: "''new'' \<in> set state_options"
    by (simp add: state_options_def)
  have res: "unique_id \<in> set (results_of w bm pm ''new'')"
    by (rule new_node_in_results [OF assms])
  obtain rs where rs: "map_of ?index unique_id = Some rs" "''new'' \<in> set rs"
    using selected_node_has_reason [of "''new''" unique_id "results_of w bm pm"] new res
    by blast
  obtain left_node where l: "map_of (nodes bm) unique_id = Some left_node"
    using assms(1) by (auto simp: in_keys_iff)
  have r: "map_of (nodes pm) unique_id = None"
    using assms(2) by (simp add: in_keys_iff)
  let ?block = "[St_subheader unique_id,
                 St_warning [Lit ''Missing from production manifest (new node)''],
                 St_write [Lit ''State methods that pick this node up:''],
                 St_code rs,
                 St_divider]"
  have node: "show_node w bm pm ?index unique_id = (?block, Inr ())"
    by (simp add: show_node_def l r rs)
  have run: "snd (compare_manifests w bm pm skipped) = Inr ()
       \<and> (\<exists>before after. fst (compare_manifests w bm pm skipped) = before @ ?block @ after)"
    if sm: "state_method w \<in> set state_options"
      and sel: "unique_id \<in> set (results_of w bm pm (state_method w))" for skipped
    using compare_manifests_ok [OF sm, of bm pm skipped]
      compare_manifests_contains [OF sm sel, of skipped] node
    by simp
  have whole: "snd (differ w) = Inr () \<and> (\<exists>before after. fst (differ w) = before @ ?block @ after)"
    if sm: "state_method w \<in> set state_options"
      and sel: "unique_id \<in> set (results_of w bm pm (state_method w))"
      and loaded: "getenv_dbt_home w = Some p" "p \<noteq> []"
        "path_exists w (production_manifest_location p)"
        "path_exists w (branch_manifest_location p)"
        "json_load w (production_manifest_location p) = Inr dp"
        "json_load w (branch_manifest_location p) = Inr db"
        "upgrade_schema_version w (fst (remove_large_seeds w dp)) = Inr pm"
        "upgrade_schema_version w (fst (remove_large_seeds w db)) = Inr bm"
    for p dp db
  proof -
    let ?S = "snd (remove_large_seeds w dp) \<union> snd (remove_large_seeds w db)"
    from run [OF sm sel, of ?S] obtain before after where
      ok: "snd (compare_manifests w bm pm ?S) = Inr ()" and
      ev: "fst (compare_manifests w bm pm ?S) = before @ ?block @ after"
      by blast
    have "fst (differ w) =
            ([Open_file (production_manifest_location p),
              Open_file (branch_manifest_location p)] @ before) @ ?block @ after"
      by (simp add: differ_loaded [OF loaded] ev)
    moreover have "snd (differ w) = Inr ()"
      by (simp add: differ_loaded [OF loaded] ok)
    ultimately show ?thesis by blast
  qed
  show ?thesis
    using res rs node run whole by blast
qed


text \<open>
  The claim on the small project, for the new node \<^verbatim>\<open>model.b\<close> and the whole run of the
  script.
\<close>

theorem branch_only_node_is_new_witness:
  "''model.b'' \<in> set (results_of demo_world demo_branch demo_production ''new'')
   \<and> map_of (snd (classify (results_of demo_world demo_branch demo_production))) ''model.b''
     = Some [''modified'', ''new'', ''modified.body'', ''modified.configs'',
             ''modified.persisted_descriptions'', ''modified.relation'', ''modified.contract'']
   \<and> snd (differ demo_world) = Inr ()
   \<and> (\<exists>before after.
         fst (differ demo_world) =
           before @
           [St_subheader ''model.b'',
            St_warning [Lit ''Missing from production manifest (new node)''],
            St_write [Lit ''State methods that pick this node up:''],
            St_code [''modified'', ''new'', ''modified.body'', ''modified.configs'',
                     ''modified.persisted_descriptions'', ''modified.relation'',
                     ''modified.contract''],
            St_divider] @ after)"
proof -
  let ?rs = "[''modified'', ''new'', ''modified.body'', ''modified.configs'',
              ''modified.persisted_descriptions'', ''modified.relation'', ''modified.contract'']"
  have a: "''model.b'' \<in> set (keys (nodes demo_branch))"
    and b: "''model.b'' \<notin> set (keys (nodes demo_production))"
    by (simp_all add: demo_branch_def demo_production_def keys_def)
  have sm: "state_method demo_world \<in> set state_options"
    by (simp add: demo_world_def state_options_def)
  have sel: "''model.b'' \<in> set (results_of demo_world demo_branch demo_production
                                   (state_method demo_world))"
    by code_simp
  have idx: "map_of (snd (classify (results_of demo_world demo_branch demo_production)))
               ''model.b'' = Some ?rs"
    by code_simp
  have loaded: "getenv_dbt_home demo_world = Some ''/project''" "''/project'' \<noteq> []"
    "path_exists demo_world (production_manifest_location ''/project'')"
    "path_exists demo_world (branch_manifest_location ''/project'')"
    "json_load demo_world (production_manifest_location ''/project'')
       = Inr ''/project/logs/manifest.json''"
    "json_load demo_world (branch_manifest_location ''/project'')
       = Inr ''/project/target/manifest.json''"
    "upgrade_schema_version demo_world
       (fst (remove_large_seeds demo_world ''/project/logs/manifest.json'')) = Inr demo_production"
    "upgrade_schema_version demo_world
       (fst (remove_large_seeds demo_world ''/project/target/manifest.json'')) = Inr demo_branch"
    by (simp_all add: demo_world_def demo_locations)
  from branch_only_node_is_new [OF a b, of demo_world "{}"]
  obtain rs where new: "''model.b'' \<in> set (results_of demo_world demo_branch demo_production ''new'')"
    and rs: "map_of (snd (classify (results_of demo_world demo_branch demo_production)))
               ''model.b'' = Some rs"
    and run: "state_method demo_world \<in> set state_options \<longrightarrow>
       ''model.b'' \<in> set (results_of demo_world demo_branch demo_production
                              (state_method demo_world)) \<longrightarrow>
       snd (compare_manifests demo_world demo_branch demo_production {}) = Inr ()
       \<and> (\<exists>before after.
             fst (compare_manifests demo_world demo_branch demo_production {}) =
               before @
               [St_subheader ''model.b'',
                St_warning [Lit ''Missing from production manifest (new node)''],
                St_write [Lit ''State methods that pick this node up:''],
                St_code rs,
                St_divider] @ after)
       \<and> (\<forall>p dp db.
             getenv_dbt_home demo_world = Some p \<longrightarrow> p \<noteq> [] \<longrightarrow>
             path_exists demo_world (production_manifest_location p) \<longrightarrow>
             path_exists demo_world (branch_manifest_location p) \<longrightarrow>
             json_load demo_world (production_manifest_location p) = Inr dp \<longrightarrow>
             json_load demo_world (branch_manifest_location p) = Inr db \<longrightarrow>
             upgrade_schema_version demo_world (fst (remove_large_seeds demo_world dp))
               = Inr demo_production \<longrightarrow>
             upgrade_schema_version demo_world (fst (remove_large_seeds demo_world db))
               = Inr demo_branch \<longrightarrow>
               snd (differ demo_world) = Inr ()
             \<and> (\<exists>before after.
                   fst (differ demo_world) =
                     before @
                     [St_subheader ''model.b'',
                      St_warning [Lit ''Missing from production manifest (new node)''],
                      St_write [Lit ''State methods that pick this node up:''],
                      St_code rs,
                      St_divider] @ after))"
    by blast
  have "rs = ?rs"
    using rs idx by simp
  with run sm sel loaded have
    "snd (differ demo_world) = Inr ()
     \<and> (\<exists>before after.
           fst (differ demo_world) =
             before @
             [St_subheader ''model.b'',
              St_warning [Lit ''Missing from production manifest (new node)''],
              St_write [Lit ''State methods that pick this node up:''],
              St_code ?rs,
              St_divider] @ after)"
    by blast
  with new idx show ?thesis
    by blast
qed

text \<open>
  Claim C3 as it is stated fails on the small project. The candidates of the
  classification are the ids of the branch manifest, so \<^verbatim>\<open>model.c\<close>, which only the
  production manifest holds, is neither in the reasons index nor in the per-node display.
  And the per-node display holds the nodes of the selected method only: with
  \<^verbatim>\<open>modified.macros\<close> selected, the new node \<^verbatim>\<open>model.b\<close> is not displayed.
\<close>

theorem one_sided_nodes_counterexample:
  "''model.c'' \<in> set (keys (nodes demo_production))
   \<and> ''model.c'' \<notin> set (keys (nodes demo_branch))
   \<and> keys (snd (classify (results_of demo_world demo_branch demo_production)))
       = [''model.a'', ''model.b'']
   \<and> displayed_ids (fst (differ demo_world)) = [''model.a'', ''model.b'']
   \<and> ''model.b'' \<in> set (keys (nodes demo_branch))
   \<and> ''model.b'' \<notin> set (keys (nodes demo_production))
   \<and> displayed_ids (fst (differ (demo_world\<lparr>state_method := ''modified.macros''\<rparr>))) = []"
  by code_simp


end
